theory Spec2Isabelle
  imports Main "HOL-Library.Sublist"
begin

section \<open>The Error Model (error.go)\<close>

text \<open>
  A Go \<^verbatim>\<open>error\<close> is an interface value: either nil or an object whose method
  \<^verbatim>\<open>Error()\<close> yields its message. An error object is modelled by the message it
  carries; a nil-able error is an \<open>error option\<close> with \<open>None\<close> for nil.
\<close>

datatype error = errors_New string

fun Error :: "error \<Rightarrow> string" where
  "Error (errors_New msg) = msg"

record HTTPError =
  ResponseCode :: int
  Err :: "error option"

text \<open>
  \<^verbatim>\<open>NewHTTPError\<close> returns the address of a fresh struct, so its result is never the
  nil pointer: a \<^verbatim>\<open>*HTTPError\<close> is an \<open>HTTPError option\<close>, \<open>None\<close> for nil.
\<close>

definition NewHTTPError :: "int \<Rightarrow> error option \<Rightarrow> HTTPError option" where
  "NewHTTPError responseCode err = Some \<lparr>ResponseCode = responseCode, Err = err\<rparr>"

definition StatusBadRequest :: int where
  "StatusBadRequest = 400"




section \<open>Requests and the response sink (net/http)\<close>

type_synonym Values = "string \<rightharpoonup> string list"

text \<open>
  A request has its method, the path and the raw query string of its URL, its body, the
  form values \<^verbatim>\<open>ParseForm\<close> fills in, and the route variables the router exposes.
  The URL is always set; the body may be nil, as it is for a client request without
  body, and is never nil on a request the server hands to a handler.
\<close>

record Request =
  Method :: string
  URL_Path :: string
  URL_RawQuery :: string
  Body :: "string option"
  PostForm :: Values
  Vars :: "string \<rightharpoonup> string"

text \<open>
  \<^verbatim>\<open>http.ResponseWriter\<close> is an interface; what a function does to it is the
  sequence of calls it makes. The sink therefore records those calls in order.
  \<^verbatim>\<open>http.Error(w, msg, code)\<close> is the standard library's plain-text error reply; it
  is recorded as one call with its message and its status code. \<open>write_outcome\<close> is
  what \<^verbatim>\<open>w.Write(b)\<close> reports for \<open>b\<close> on this sink (bytes written, error).
\<close>

datatype sink_call =
    Call_Header_Set string string
  | Call_WriteHeader int
  | Call_Write string
  | Call_http_Error string int

record ResponseWriter =
  written :: "sink_call list"
  write_outcome :: "string \<Rightarrow> nat \<times> error option"

text \<open>
  The panics of the code: calling a method on a nil interface or reading through a nil
  pointer, and net/http's \<^verbatim>\<open>WriteHeader\<close> refusing a status code.
\<close>

datatype panic = nil_dereference | invalid_WriteHeader_code int

text \<open>
  Whether the response header has gone out, as net/http's server keeps it in
  \<^verbatim>\<open>wroteHeader\<close>: after a \<^verbatim>\<open>WriteHeader\<close> with a final status (an informational
  1xx status other than 101 leaves the header open), after any \<^verbatim>\<open>Write\<close>, and after
  \<^verbatim>\<open>http.Error\<close>, which writes both.
\<close>

fun sends_header :: "sink_call \<Rightarrow> bool" where
  "sends_header (Call_Header_Set k v) = False"
| "sends_header (Call_WriteHeader code) = (code = 101 \<or> 200 \<le> code)"
| "sends_header (Call_Write b) = True"
| "sends_header (Call_http_Error msg code) = True"

definition wroteHeader :: "ResponseWriter \<Rightarrow> bool" where
  "wroteHeader w = list_ex sends_header (written w)"

definition Header_Set :: "ResponseWriter \<Rightarrow> string \<Rightarrow> string \<Rightarrow> ResponseWriter" where
  "Header_Set w k v = w\<lparr>written := written w @ [Call_Header_Set k v]\<rparr>"

text \<open>
  \<^verbatim>\<open>WriteHeader\<close> returns at once when the header has already gone out (the call is
  superfluous), and otherwise panics on a status code outside 100..999.
\<close>

definition WriteHeader :: "ResponseWriter \<Rightarrow> int \<Rightarrow> panic + ResponseWriter" where
  "WriteHeader w code =
     (if wroteHeader w then Inr (w\<lparr>written := written w @ [Call_WriteHeader code]\<rparr>)
      else if code < 100 \<or> 999 < code then Inl (invalid_WriteHeader_code code)
      else Inr (w\<lparr>written := written w @ [Call_WriteHeader code]\<rparr>))"

definition Write :: "ResponseWriter \<Rightarrow> string \<Rightarrow> (nat \<times> error option) \<times> ResponseWriter" where
  "Write w b = (write_outcome w b, w\<lparr>written := written w @ [Call_Write b]\<rparr>)"

text \<open>
  \<^verbatim>\<open>http.Error\<close> sets its headers, calls \<^verbatim>\<open>w.WriteHeader(code)\<close> and writes the
  message; it panics where that \<^verbatim>\<open>WriteHeader\<close> does, before anything is sent.
\<close>

definition http_Error :: "ResponseWriter \<Rightarrow> string \<Rightarrow> int \<Rightarrow> panic + ResponseWriter" where
  "http_Error w msg code =
     (if wroteHeader w then Inr (w\<lparr>written := written w @ [Call_http_Error msg code]\<rparr>)
      else if code < 100 \<or> 999 < code then Inl (invalid_WriteHeader_code code)
      else Inr (w\<lparr>written := written w @ [Call_http_Error msg code]\<rparr>))"

section \<open>Controller and middleware contracts (middleware.go, controller)\<close>

text \<open>
  \<^verbatim>\<open>Handle(w, r)\<close> and \<^verbatim>\<open>Action(w, r)\<close> are user code: any function that may
  write to the sink and returns nil or an Error Model (user code that does not return is
  outside the dispatcher's contract). The name stands for the identity of the object
  that implements the interface.
\<close>

record MiddlewareInterface =
  mw_name :: string
  Handle :: "ResponseWriter \<Rightarrow> Request \<Rightarrow> HTTPError option \<times> ResponseWriter"

record ControllerInterface =
  ctl_name :: string
  Action :: "ResponseWriter \<Rightarrow> Request \<Rightarrow> HTTPError option \<times> ResponseWriter"

text \<open>
  One request being served: the sink, and a record of the calls the dispatcher has made
  to user code so far, in order. The record is there to state which middleware and
  controllers ran; no code reads it. A handler either returns, or panics; a panic carries
  the exchange as it stood.
\<close>

datatype invocation = Handle_of string | Action_of string

record exchange =
  invoked :: "invocation list"
  sink :: ResponseWriter

type_synonym Handler = "exchange \<Rightarrow> Request \<Rightarrow> (panic \<times> exchange) + exchange"

fun exchange_of :: "(panic \<times> exchange) + exchange \<Rightarrow> exchange" where
  "exchange_of (Inl (p, x)) = x"
| "exchange_of (Inr x) = x"

section \<open>The routing capability (gorilla/mux)\<close>

text \<open>
  gorilla/mux is an external collaborator whose code is not under src/. The
  specification (sections 4.4 and 6) gives the contract the dispatcher relies on, and
  the definitions of this section follow it. The pattern matcher itself is a parameter
  \<open>pm\<close>: given a pattern and an incoming path it decides match or no match and on
  match exposes the placeholder values.
\<close>

type_synonym path_matcher = "string \<Rightarrow> string \<Rightarrow> (string \<rightharpoonup> string) option"

text \<open>
  Modelled from the spec: the route table and the middleware chain of mux's
  \<^verbatim>\<open>Router\<close>. A route entry is a path pattern, a handler and a set of allowed
  methods (none as long as \<^verbatim>\<open>Methods\<close> has not been called on the route); the
  chain is an ordered sequence, appended to only.
\<close>

record Route =
  path_pattern :: string
  route_handler :: Handler
  route_methods :: "string list option"

record Router =
  routes :: "Route list"
  middlewares :: "(Handler \<Rightarrow> Handler) list"

definition NewRouter :: Router where
  "NewRouter = \<lparr>routes = [], middlewares = []\<rparr>"

text \<open>
  Modelled from the spec: mux's \<^verbatim>\<open>Router.Use\<close> appends a middleware to the chain;
  insertion order is execution order.
\<close>

definition Use :: "Router \<Rightarrow> (Handler \<Rightarrow> Handler) \<Rightarrow> Router" where
  "Use rt mwf = rt\<lparr>middlewares := middlewares rt @ [mwf]\<rparr>"

text \<open>
  Modelled from the spec: mux's \<^verbatim>\<open>Router.HandleFunc\<close> registers one route entry for
  a pattern and a handler, after the entries registered before, and returns a pointer to
  it, here its index; \<^verbatim>\<open>Route.Methods\<close> sets the allowed methods of the route
  pointed to.
\<close>

definition HandleFunc :: "Router \<Rightarrow> string \<Rightarrow> Handler \<Rightarrow> Router \<times> nat" where
  "HandleFunc rt path f =
     (rt\<lparr>routes := routes rt @ [\<lparr>path_pattern = path, route_handler = f, route_methods = None\<rparr>]\<rparr>,
      length (routes rt))"

definition Methods :: "Router \<Rightarrow> nat \<Rightarrow> string list \<Rightarrow> Router" where
  "Methods rt i methods =
     (if i < length (routes rt)
      then rt\<lparr>routes := (routes rt)[i := (routes rt ! i)\<lparr>route_methods := Some methods\<rparr>]\<rparr>
      else rt)"

text \<open>
  Modelled from the spec: mux's matching. A route matches a request when its pattern
  matches the path and the request's method is in its method set; the declared method
  set is the only set accepted. The first registered route that matches wins.
\<close>

definition route_match :: "path_matcher \<Rightarrow> Route \<Rightarrow> Request \<Rightarrow> (string \<rightharpoonup> string) option" where
  "route_match pm route r =
     (case pm (path_pattern route) (URL_Path r) of
        None \<Rightarrow> None
      | Some vs \<Rightarrow>
          (case route_methods route of
             None \<Rightarrow> Some vs
           | Some ms \<Rightarrow> if Method r \<in> set ms then Some vs else None))"

fun Match :: "path_matcher \<Rightarrow> Route list \<Rightarrow> Request \<Rightarrow> (Route \<times> (string \<rightharpoonup> string)) option" where
  "Match pm [] r = None"
| "Match pm (route # rest) r =
     (case route_match pm route r of
        Some vs \<Rightarrow> Some (route, vs)
      | None \<Rightarrow> Match pm rest r)"

text \<open>
  Modelled from the spec: the routing layer's default responses for a request that no
  route serves. An unmatched path gets the not-found default; a path whose routes all
  refuse the method gets the layer's default for a mismatched method, which in mux is a
  bare status 405. Neither runs a middleware or a controller.
\<close>

definition default_response :: "path_matcher \<Rightarrow> Route list \<Rightarrow> Handler" where
  "default_response pm rts x r =
     (case (if list_ex (\<lambda>route. pm (path_pattern route) (URL_Path r) \<noteq> None) rts
            then WriteHeader (sink x) 405
            else http_Error (sink x) ''404 page not found'' 404) of
        Inl p \<Rightarrow> Inl (p, x)
      | Inr w \<Rightarrow> Inr (x\<lparr>sink := w\<rparr>))"

text \<open>
  Modelled from the spec: mux's \<^verbatim>\<open>Router.ServeHTTP\<close>, the per-request dispatch. For
  a matched route the middleware chain runs in registration order, each middleware as a
  gate around the remaining chain and the route's handler; the placeholder values are
  exposed on the request the handlers receive.
\<close>

definition ServeHTTP :: "path_matcher \<Rightarrow> Router \<Rightarrow> Handler" where
  "ServeHTTP pm rt x r =
     (case Match pm (routes rt) r of
        Some (route, vs) \<Rightarrow>
          foldr (\<lambda>mwf next. mwf next) (middlewares rt) (route_handler route) x (r\<lparr>Vars := vs\<rparr>)
      | None \<Rightarrow> default_response pm (routes rt) x r)"

section \<open>The dispatcher (server.go)\<close>

text \<open>
  Of the server only the router matters to a dispatch; of the configuration, which
  \<^verbatim>\<open>NewHTTPServer\<close> copies field by field into \<^verbatim>\<open>http.Server\<close>, the address stands
  for all fields.
\<close>

record HTTPServerConfig =
  Addr :: string

record HTTPServer =
  server_Addr :: string
  router :: Router

definition NewHTTPServer :: "HTTPServerConfig \<Rightarrow> HTTPServer" where
  "NewHTTPServer config = \<lparr>server_Addr = Addr config, router = NewRouter\<rparr>"

text \<open>
  The closure \<^verbatim>\<open>AddMiddleware\<close> hands to \<^verbatim>\<open>router.Use\<close>: call the middleware; on
  nil run the rest of the chain, otherwise reply with \<^verbatim>\<open>http.Error\<close>. Its message
  argument \<^verbatim>\<open>herr.Err.Error()\<close> panics when \<^verbatim>\<open>Err\<close> is nil, and
  \<^verbatim>\<open>http.Error\<close> itself may panic on the status code. The call to \<^verbatim>\<open>Handle\<close>
  is noted in the exchange's record.
\<close>

definition AddMiddleware_func :: "MiddlewareInterface \<Rightarrow> Handler \<Rightarrow> Handler" where
  "AddMiddleware_func middleware next x r =
     (let (herr, w) = Handle middleware (sink x) r;
          x' = \<lparr>invoked = invoked x @ [Handle_of (mw_name middleware)], sink = w\<rparr>
      in case herr of
           None \<Rightarrow> next x' r
         | Some e \<Rightarrow>
             (case Err e of
                None \<Rightarrow> Inl (nil_dereference, x')
              | Some cause \<Rightarrow>
                  (case http_Error w (Error cause) (ResponseCode e) of
                     Inl p \<Rightarrow> Inl (p, x')
                   | Inr w' \<Rightarrow> Inr (x'\<lparr>sink := w'\<rparr>))))"

definition AddMiddleware :: "HTTPServer \<Rightarrow> MiddlewareInterface \<Rightarrow> HTTPServer" where
  "AddMiddleware s middleware = s\<lparr>router := Use (router s) (AddMiddleware_func middleware)\<rparr>"

text \<open>
  The closure \<^verbatim>\<open>AddRoute\<close> hands to \<^verbatim>\<open>router.HandleFunc\<close>: call the controller; on
  an Error Model reply with \<^verbatim>\<open>http.Error\<close>, on nil do nothing more. The call to
  \<^verbatim>\<open>Action\<close> is noted in the exchange's record.
\<close>

definition AddRoute_func :: "ControllerInterface \<Rightarrow> Handler" where
  "AddRoute_func controller x r =
     (let (herr, w) = Action controller (sink x) r;
          x' = \<lparr>invoked = invoked x @ [Action_of (ctl_name controller)], sink = w\<rparr>
      in case herr of
           Some e \<Rightarrow>
             (case Err e of
                None \<Rightarrow> Inl (nil_dereference, x')
              | Some cause \<Rightarrow>
                  (case http_Error w (Error cause) (ResponseCode e) of
                     Inl p \<Rightarrow> Inl (p, x')
                   | Inr w' \<Rightarrow> Inr (x'\<lparr>sink := w'\<rparr>)))
         | None \<Rightarrow> Inr x')"

definition AddRoute :: "HTTPServer \<Rightarrow> string \<Rightarrow> ControllerInterface \<Rightarrow> string list \<Rightarrow> HTTPServer" where
  "AddRoute s route controller methods =
     (let (rt, i) = HandleFunc (router s) route (AddRoute_func controller)
      in s\<lparr>router := Methods rt i methods\<rparr>)"

subsection \<open>Setting a server up\<close>

text \<open>
  An application registers middleware and routes, in any order, on a new server before
  it serves. \<open>configure\<close> replays such a sequence of calls.
\<close>

datatype registration =
    Reg_Middleware MiddlewareInterface
  | Reg_Route string ControllerInterface "string list"

fun register :: "HTTPServer \<Rightarrow> registration \<Rightarrow> HTTPServer" where
  "register s (Reg_Middleware middleware) = AddMiddleware s middleware"
| "register s (Reg_Route route controller methods) = AddRoute s route controller methods"

definition configure :: "HTTPServerConfig \<Rightarrow> registration list \<Rightarrow> HTTPServer" where
  "configure config regs = foldl register (NewHTTPServer config) regs"

fun registered_middleware :: "registration list \<Rightarrow> MiddlewareInterface list" where
  "registered_middleware [] = []"
| "registered_middleware (Reg_Middleware m # regs) = m # registered_middleware regs"
| "registered_middleware (Reg_Route p c ms # regs) = registered_middleware regs"

fun registered_routes :: "registration list \<Rightarrow> (string \<times> ControllerInterface \<times> string list) list" where
  "registered_routes [] = []"
| "registered_routes (Reg_Middleware m # regs) = registered_routes regs"
| "registered_routes (Reg_Route p c ms # regs) = (p, c, ms) # registered_routes regs"

text \<open>
  The specification's reading of a dispatch, used to state the claims: the route entry
  that serves a request is the first registered one whose pattern matches the path and
  whose method set holds the method; the gates are passed one after the other, each on
  the sink as the one before left it.
\<close>

fun find_route :: "path_matcher \<Rightarrow> (string \<times> ControllerInterface \<times> string list) list \<Rightarrow> Request
    \<Rightarrow> ((string \<times> ControllerInterface \<times> string list) \<times> (string \<rightharpoonup> string)) option" where
  "find_route pm [] r = None"
| "find_route pm ((p, c, ms) # rest) r =
     (case pm p (URL_Path r) of
        None \<Rightarrow> find_route pm rest r
      | Some vs \<Rightarrow> if Method r \<in> set ms then Some ((p, c, ms), vs) else find_route pm rest r)"

fun pass_all :: "MiddlewareInterface list \<Rightarrow> ResponseWriter \<Rightarrow> Request \<Rightarrow> ResponseWriter option" where
  "pass_all [] w r = Some w"
| "pass_all (m # ms) w r =
     (case Handle m w r of
        (None, w') \<Rightarrow> pass_all ms w' r
      | (Some e, w') \<Rightarrow> None)"

definition fresh :: "ResponseWriter \<Rightarrow> exchange" where
  "fresh w = \<lparr>invoked = [], sink = w\<rparr>"


text \<open>The route entry one call of \<^verbatim>\<open>AddRoute\<close> leaves in the routing table.\<close>

definition route_entry :: "string \<times> ControllerInterface \<times> string list \<Rightarrow> Route" where
  "route_entry e = (case e of (p, c, ms) \<Rightarrow>
     \<lparr>path_pattern = p, route_handler = AddRoute_func c, route_methods = Some ms\<rparr>)"


section \<open>Binding and response helpers (controller)\<close>

text \<open>
  The helpers are thin plumbing over external collaborators: net/url's query parser,
  the gorilla/schema decoder, \<^verbatim>\<open>Request.ParseForm\<close>, the JSON codec and the beego
  validator. Each collaborator is a parameter, with the result shape the code reads:
  \<^verbatim>\<open>ParseQuery\<close> yields the pairs it could parse and the first error it met, the
  decoders fill the schema they are given and report an error or nil, \<^verbatim>\<open>Valid\<close>
  yields a verdict and an error, \<^verbatim>\<open>Marshal\<close> yields bytes and an error. \<open>'s\<close> is
  the schema struct's type.
\<close>

type_synonym 's Decoder = "'s \<Rightarrow> Values \<Rightarrow> error option \<times> 's"

record 's collaborators =
  url_ParseQuery :: "string \<Rightarrow> Values \<times> error option"
  schema_NewDecoder :: "'s Decoder"
  Request_ParseForm :: "Request \<Rightarrow> error option \<times> Request"
  json_Decode :: "string \<Rightarrow> 's \<Rightarrow> error option \<times> 's"
  validation_Valid :: "'s \<Rightarrow> bool \<times> error option"
  json_Marshal :: "'s \<Rightarrow> string \<times> error option"







text \<open>
  The two methods of \<^verbatim>\<open>AbstractJSONController\<close> never read their receiver, which
  is therefore left out. \<^verbatim>\<open>json.NewDecoder(r.Body).Decode\<close> reads from the body and
  panics on a nil one. \<^verbatim>\<open>WriteJSONResponse\<close> panics where \<^verbatim>\<open>w.WriteHeader\<close>
  does; the panic carries the sink as it stood, with the content type already set.
\<close>

definition ScanJSONBody :: "'s collaborators \<Rightarrow> Request \<Rightarrow> 's \<Rightarrow> panic + (HTTPError option \<times> 's)" where
  "ScanJSONBody ext r schema =
     (case Body r of
        None \<Rightarrow> Inl nil_dereference
      | Some body \<Rightarrow>
          (case json_Decode ext body schema of
             (Some err, schema') \<Rightarrow> Inr (NewHTTPError StatusBadRequest (Some err), schema')
           | (None, schema') \<Rightarrow>
               (case validation_Valid ext schema' of
                  (b, Some err) \<Rightarrow> Inr (NewHTTPError StatusBadRequest (Some err), schema')
                | (b, None) \<Rightarrow>
                    if \<not> b
                    then Inr (NewHTTPError StatusBadRequest
                                (Some (errors_New ''Schema validation error'')), schema')
                    else Inr (None, schema'))))"



definition status_and_message :: "HTTPError \<Rightarrow> int \<times> string option" where
  "status_and_message h = (ResponseCode h, map_option Error (Err h))"

section \<open>Example inputs\<close>

text \<open>
  A healthy empty sink and a write outcome for a broken connection, a matcher that
  compares pattern and path literally, one request, and a few middleware and
  controllers: a gate that sets a header and passes, one that refuses every request with
  403 ``forbidden'', one that passes silently, one that refuses with an Error Model
  without cause and one with status 0; a controller that answers 200 ``ok'', one that
  fails with 500 ``boom'', one that refuses like the gate, and again one without cause
  and one with status 0.
\<close>

definition blank_sink :: ResponseWriter where
  "blank_sink = \<lparr>written = [], write_outcome = (\<lambda>b. (length b, None))\<rparr>"


definition exact_paths :: path_matcher where
  "exact_paths p path = (if p = path then Some Map.empty else None)"

definition get_items :: Request where
  "get_items = \<lparr>Method = ''GET'', URL_Path = ''/items'', URL_RawQuery = [], Body = Some [],
     PostForm = Map.empty, Vars = Map.empty\<rparr>"

definition cors_gate :: MiddlewareInterface where
  "cors_gate = \<lparr>mw_name = ''cors'',
     Handle = (\<lambda>w r. (None, Header_Set w ''Access-Control-Allow-Origin'' ''*''))\<rparr>"


definition audit_gate :: MiddlewareInterface where
  "audit_gate = \<lparr>mw_name = ''audit'', Handle = (\<lambda>w r. (None, w))\<rparr>"



definition items_controller :: ControllerInterface where
  "items_controller = \<lparr>ctl_name = ''items'',
     Action = (\<lambda>w r. case WriteHeader w 200 of
                        Inl p \<Rightarrow> (None, w)
                      | Inr w' \<Rightarrow> (None, snd (Write w' ''ok'')))\<rparr>"

definition broken_controller :: ControllerInterface where
  "broken_controller = \<lparr>ctl_name = ''broken'',
     Action = (\<lambda>w r. (NewHTTPError 500 (Some (errors_New ''boom'')), w))\<rparr>"






definition local_config :: HTTPServerConfig where
  "local_config = \<lparr>Addr = '':8080''\<rparr>"

text \<open>
  The collaborators' answers on a handful of inputs, for a schema struct with the one
  integer field Qty, named qty for JSON and for the schema decoder and tagged Min(1) for
  the validator; the examples use no other input. The query parser keeps the pair of
  ``qty=3&x=%zz'' that parses and reports the bad escape; the schema decoder leaves a
  missing key alone and cannot convert ``abc''; the form parser rejects the body
  ``qty=%zz'' and wants a body; the JSON decoder reads the objects that give qty as 3
  and as -2, reports EOF on the empty body and an invalid character on a key without
  value; the validator finds a quantity below 1 invalid; the encoder prints the field in
  decimal. \<open>quoted\<close> puts a string between double quotes, \<open>squoted\<close> between
  single ones.
\<close>

definition quoted :: "string \<Rightarrow> string" where
  "quoted s = CHR 0x22 # s @ [CHR 0x22]"

definition squoted :: "string \<Rightarrow> string" where
  "squoted s = CHR 0x27 # s @ [CHR 0x27]"

record item =
  qty :: int

fun decimal :: "nat \<Rightarrow> string" where
  "decimal n = (if n < 10 then [''0123456789'' ! n]
                else decimal (n div 10) @ [''0123456789'' ! (n mod 10)])"

definition itoa :: "int \<Rightarrow> string" where
  "itoa i = (if i < 0 then CHR ''-'' # decimal (nat (- i)) else decimal (nat i))"

definition qty_body :: "int \<Rightarrow> string" where
  "qty_body n = ''{'' @ quoted ''qty'' @ '':'' @ itoa n @ ''}''"


definition bad_escape :: error where
  "bad_escape = errors_New (''invalid URL escape '' @ quoted ''%zz'')"

definition not_converted :: error where
  "not_converted = errors_New (''schema: error converting value for '' @ quoted ''qty'')"

definition toy_libs :: "item collaborators" where
  "toy_libs = \<lparr>
     url_ParseQuery = (\<lambda>q.
         if q = ''qty=3&x=%zz'' then ([''qty'' \<mapsto> [''3'']], Some bad_escape)
         else if q = ''qty=3'' then ([''qty'' \<mapsto> [''3'']], None)
         else if q = ''qty=abc'' then ([''qty'' \<mapsto> [''abc'']], None)
         else (Map.empty, None)),
     schema_NewDecoder = (\<lambda>s vals. case vals ''qty'' of
         None \<Rightarrow> (None, s)
       | Some vs \<Rightarrow> if vs = [''3''] then (None, s\<lparr>qty := 3\<rparr>) else (Some not_converted, s)),
     Request_ParseForm = (\<lambda>r. case Body r of
         None \<Rightarrow> (Some (errors_New ''missing form body''), r)
       | Some b \<Rightarrow>
           if b = ''qty=%zz'' then (Some bad_escape, r)
           else if b = ''qty=3'' then (None, r\<lparr>PostForm := [''qty'' \<mapsto> [''3'']]\<rparr>)
           else if b = ''qty=abc'' then (None, r\<lparr>PostForm := [''qty'' \<mapsto> [''abc'']]\<rparr>)
           else (None, r\<lparr>PostForm := Map.empty\<rparr>)),
     json_Decode = (\<lambda>body s.
         if body = qty_body 3 then (None, s\<lparr>qty := 3\<rparr>)
         else if body = qty_body (- 2) then (None, s\<lparr>qty := - 2\<rparr>)
         else if body = [] then (Some (errors_New ''EOF''), s)
         else (Some (errors_New (''invalid character '' @ squoted ''}''
                 @ '' looking for beginning of value'')), s)),
     validation_Valid = (\<lambda>s. (1 \<le> qty s, None)),
     json_Marshal = (\<lambda>s. (qty_body (qty s), None))\<rparr>"




definition blank_item :: item where
  "blank_item = \<lparr>qty = 0\<rparr>"

definition post_body :: "string \<Rightarrow> Request" where
  "post_body b = \<lparr>Method = ''POST'', URL_Path = ''/items'', URL_RawQuery = [], Body = Some b,
     PostForm = Map.empty, Vars = Map.empty\<rparr>"



section \<open>The sink\<close>

lemma http_Error_accepted:
  "100 \<le> code \<Longrightarrow> code \<le> 999 \<Longrightarrow>
   http_Error w msg code = Inr (w\<lparr>written := written w @ [Call_http_Error msg code]\<rparr>)"
  by (simp add: http_Error_def)


lemma wroteHeader_Header_Set [simp]:
  "wroteHeader (Header_Set w k v) = wroteHeader w"
  by (simp add: wroteHeader_def Header_Set_def)

section \<open>The router after setup\<close>

lemma route_entry_fields:
  "path_pattern (route_entry (p, c, ms)) = p"
  "route_handler (route_entry (p, c, ms)) = AddRoute_func c"
  "route_methods (route_entry (p, c, ms)) = Some ms"
  by (simp_all add: route_entry_def)

lemma AddMiddleware_router:
  "middlewares (router (AddMiddleware s m)) = middlewares (router s) @ [AddMiddleware_func m]"
  "routes (router (AddMiddleware s m)) = routes (router s)"
  by (simp_all add: AddMiddleware_def Use_def)

lemma AddRoute_router:
  "middlewares (router (AddRoute s p c ms)) = middlewares (router s)"
  "routes (router (AddRoute s p c ms)) = routes (router s) @ [route_entry (p, c, ms)]"
  by (simp_all add: AddRoute_def HandleFunc_def Methods_def route_entry_def)

lemma register_all_middlewares:
  "middlewares (router (foldl register s regs)) =
     middlewares (router s) @ map AddMiddleware_func (registered_middleware regs)"
proof (induction regs arbitrary: s)
  case Nil
  show ?case by simp
next
  case (Cons reg regs)
  show ?case by (cases reg) (simp_all add: Cons.IH AddMiddleware_router AddRoute_router)
qed

lemma register_all_routes:
  "routes (router (foldl register s regs)) =
     routes (router s) @ map route_entry (registered_routes regs)"
proof (induction regs arbitrary: s)
  case Nil
  show ?case by simp
next
  case (Cons reg regs)
  show ?case by (cases reg) (simp_all add: Cons.IH AddMiddleware_router AddRoute_router)
qed

lemma configure_router:
  "middlewares (router (configure config regs)) = map AddMiddleware_func (registered_middleware regs)"
  "routes (router (configure config regs)) = map route_entry (registered_routes regs)"
  by (simp_all add: configure_def register_all_middlewares register_all_routes
        NewHTTPServer_def NewRouter_def)

lemma Match_route_entries:
  "Match pm (map route_entry rs) r =
     map_option (\<lambda>(e, vs). (route_entry e, vs)) (find_route pm rs r)"
proof (induction rs)
  case Nil
  show ?case by simp
next
  case (Cons e rs)
  obtain p c ms where e: "e = (p, c, ms)" by (cases e) auto
  show ?case
    by (simp add: e Cons.IH route_match_def route_entry_fields split: option.splits)
qed

lemma ServeHTTP_matched:
  assumes "find_route pm (registered_routes regs) r = Some ((p, c, M), vs)"
  shows "ServeHTTP pm (router (configure config regs)) x r =
     foldr (\<lambda>mwf next. mwf next) (map AddMiddleware_func (registered_middleware regs))
       (AddRoute_func c) x (r\<lparr>Vars := vs\<rparr>)"
  by (simp add: ServeHTTP_def configure_router Match_route_entries assms route_entry_fields)

section \<open>The middleware chain\<close>

text \<open>One gate, and the controller's handler, step by step.\<close>

lemma gate_nil:
  "Handle m (sink x) r = (None, w') \<Longrightarrow>
   AddMiddleware_func m next x r =
     next \<lparr>invoked = invoked x @ [Handle_of (mw_name m)], sink = w'\<rparr> r"
  by (simp add: AddMiddleware_func_def)

lemma gate_error_invoked:
  "Handle m (sink x) r = (Some e, w') \<Longrightarrow>
   invoked (exchange_of (AddMiddleware_func m next x r)) = invoked x @ [Handle_of (mw_name m)]"
  by (simp add: AddMiddleware_func_def Let_def split: option.splits sum.splits)


lemma AddRoute_func_error:
  "Action c (sink x) r = (Some herr, w') \<Longrightarrow> Err herr = Some cause \<Longrightarrow>
   100 \<le> ResponseCode herr \<Longrightarrow> ResponseCode herr \<le> 999 \<Longrightarrow>
   AddRoute_func c x r =
     Inr \<lparr>invoked = invoked x @ [Action_of (ctl_name c)],
          sink = w'\<lparr>written := written w' @ [Call_http_Error (Error cause) (ResponseCode herr)]\<rparr>\<rparr>"
  by (simp add: AddRoute_func_def http_Error_accepted)

lemma AddRoute_func_nil:
  "Action c (sink x) r = (None, w') \<Longrightarrow>
   AddRoute_func c x r = Inr \<lparr>invoked = invoked x @ [Action_of (ctl_name c)], sink = w'\<rparr>"
  by (simp add: AddRoute_func_def)


lemma AddRoute_func_invoked:
  "invoked (exchange_of (AddRoute_func c x r)) = invoked x @ [Action_of (ctl_name c)]"
  by (simp add: AddRoute_func_def Let_def split: prod.splits option.splits sum.splits)

text \<open>Gates that all pass hand the request on, each on the sink its predecessor left.\<close>

lemma chain_pass:
  "pass_all ms (sink x) r = Some w' \<Longrightarrow>
   foldr (\<lambda>mwf next. mwf next) (map AddMiddleware_func ms) h x r =
     h \<lparr>invoked = invoked x @ map (\<lambda>m. Handle_of (mw_name m)) ms, sink = w'\<rparr> r"
proof (induction ms arbitrary: x)
  case Nil
  then show ?case by (cases x) simp
next
  case (Cons m ms)
  obtain herr wa where H: "Handle m (sink x) r = (herr, wa)" by (cases "Handle m (sink x) r") auto
  with Cons.prems have herr: "herr = None" and rest: "pass_all ms wa r = Some w'"
    by (auto split: option.splits)
  let ?x1 = "\<lparr>invoked = invoked x @ [Handle_of (mw_name m)], sink = wa\<rparr>"
  have "pass_all ms (sink ?x1) r = Some w'" using rest by simp
  from Cons.IH[OF this] show ?case
    using H by (simp add: gate_nil herr)
qed


text \<open>When every gate passes, the request reaches the controller's handler.\<close>

lemma ServeHTTP_all_pass:
  assumes "find_route pm (registered_routes regs) r = Some ((p, c, M), vs)"
      and "pass_all (registered_middleware regs) w (r\<lparr>Vars := vs\<rparr>) = Some w'"
  shows "ServeHTTP pm (router (configure config regs)) (fresh w) r =
     AddRoute_func c
       \<lparr>invoked = map (\<lambda>m. Handle_of (mw_name m)) (registered_middleware regs), sink = w'\<rparr>
       (r\<lparr>Vars := vs\<rparr>)"
proof -
  have "pass_all (registered_middleware regs) (sink (fresh w)) (r\<lparr>Vars := vs\<rparr>) = Some w'"
    using assms(2) by (simp add: fresh_def)
  from chain_pass[OF this, of "AddRoute_func c"] show ?thesis
    by (simp add: ServeHTTP_matched[OF assms(1)] fresh_def)
qed


text \<open>
  Whatever the gates answer, the calls made are an initial stretch of the chain in
  registration order, then the controller.
\<close>

lemma chain_invoked_prefix:
  "prefix (invoked (exchange_of
       (foldr (\<lambda>mwf next. mwf next) (map AddMiddleware_func ms) (AddRoute_func c) x r)))
     (invoked x @ map (\<lambda>m. Handle_of (mw_name m)) ms @ [Action_of (ctl_name c)])"
proof (induction ms arbitrary: x)
  case Nil
  show ?case by (simp add: AddRoute_func_invoked)
next
  case (Cons m ms)
  obtain herr wa where H: "Handle m (sink x) r = (herr, wa)" by (cases "Handle m (sink x) r") auto
  show ?case
  proof (cases herr)
    case None
    let ?x1 = "\<lparr>invoked = invoked x @ [Handle_of (mw_name m)], sink = wa\<rparr>"
    from Cons.IH[of ?x1] show ?thesis
      using H by (simp add: gate_nil None)
  next
    case (Some e)
    show ?thesis
      using H by (simp add: gate_error_invoked Some)
  qed
qed

text \<open>A chain in which some gate refuses never reaches what stands behind it.\<close>

lemma chain_blocked:
  "pass_all ms (sink x) r = None \<Longrightarrow>
   Action_of n \<in> set (invoked (exchange_of
       (foldr (\<lambda>mwf next. mwf next) (map AddMiddleware_func ms) h x r))) \<Longrightarrow>
   Action_of n \<in> set (invoked x)"
proof (induction ms arbitrary: x)
  case Nil
  then show ?case by simp
next
  case (Cons m ms)
  obtain herr wa where H: "Handle m (sink x) r = (herr, wa)" by (cases "Handle m (sink x) r") auto
  show ?case
  proof (cases herr)
    case None
    let ?x1 = "\<lparr>invoked = invoked x @ [Handle_of (mw_name m)], sink = wa\<rparr>"
    have "pass_all ms (sink ?x1) r = None" using Cons.prems(1) by (simp add: H None)
    moreover have "Action_of n \<in> set (invoked (exchange_of
       (foldr (\<lambda>mwf next. mwf next) (map AddMiddleware_func ms) h ?x1 r)))"
      using Cons.prems(2) H by (simp add: gate_nil None)
    ultimately have "Action_of n \<in> set (invoked ?x1)" by (rule Cons.IH)
    then show ?thesis by simp
  next
    case (Some e)
    with Cons.prems(2) H show ?thesis
      by (simp add: gate_error_invoked)
  qed
qed

lemma find_route_Some:
  "find_route pm rs r = Some ((p, c, M), vs) \<Longrightarrow>
   (p, c, M) \<in> set rs \<and> Method r \<in> set M \<and> pm p (URL_Path r) = Some vs"
proof (induction rs)
  case Nil
  then show ?case by simp
next
  case (Cons e rs)
  obtain p' c' M' where e: "e = (p', c', M')" by (cases e) auto
  from Cons show ?case
    by (auto simp: e split: option.splits if_splits)
qed

lemma ServeHTTP_unmatched:
  "find_route pm (registered_routes regs) r = None \<Longrightarrow>
   invoked (exchange_of (ServeHTTP pm (router (configure config regs)) (fresh w) r)) = []"
  by (simp add: ServeHTTP_def configure_router Match_route_entries default_response_def fresh_def
        split: sum.splits)

section \<open>The helpers' error paths\<close>








lemma ScanJSONBody_invalid:
  "Body r = Some body \<Longrightarrow> json_Decode ext body schema = (None, s') \<Longrightarrow>
   validation_Valid ext s' = (False, None) \<Longrightarrow>
   ScanJSONBody ext r schema =
     Inr (Some \<lparr>ResponseCode = 400, Err = Some (errors_New ''Schema validation error'')\<rparr>, s')"
  by (simp add: ScanJSONBody_def NewHTTPError_def StatusBadRequest_def)








section \<open>Claims about the dispatcher\<close>







text \<open>
  C3. When every middleware returns nil and the controller's \<^verbatim>\<open>Action\<close> returns
  nil, the dispatcher writes nothing: the sink at the end of the dispatch is the sink
  exactly as the controller left it.
\<close>

theorem dispatcher_adds_nothing_on_success:
  assumes "find_route pm (registered_routes regs) r = Some ((p, c, M), vs)"
      and "pass_all (registered_middleware regs) w (r\<lparr>Vars := vs\<rparr>) = Some w_mid"
      and "Action c w_mid (r\<lparr>Vars := vs\<rparr>) = (None, w_end)"
  shows "ServeHTTP pm (router (configure config regs)) (fresh w) r =
           Inr \<lparr>invoked = map (\<lambda>m. Handle_of (mw_name m)) (registered_middleware regs)
                           @ [Action_of (ctl_name c)],
                sink = w_end\<rparr>"
  using assms(3) by (simp add: ServeHTTP_all_pass[OF assms(1) assms(2)] AddRoute_func_nil)

text \<open>Behind a silent gate, the response is the items controller's 200 ``ok''.\<close>

theorem dispatcher_adds_nothing_on_success_witness:
  "ServeHTTP exact_paths
      (router (configure local_config
         [Reg_Middleware audit_gate, Reg_Route ''/items'' items_controller [''GET'']]))
      (fresh blank_sink) get_items =
     Inr \<lparr>invoked = [Handle_of ''audit'', Action_of ''items''],
          sink = \<lparr>written = [Call_WriteHeader 200, Call_Write ''ok''],
                   write_outcome = write_outcome blank_sink\<rparr>\<rparr>
 \<and> snd (Action items_controller blank_sink get_items) =
     \<lparr>written = [Call_WriteHeader 200, Call_Write ''ok''],
      write_outcome = write_outcome blank_sink\<rparr>"
proof -
  let ?regs = "[Reg_Middleware audit_gate, Reg_Route ''/items'' items_controller [''GET'']]"
  let ?w2 = "\<lparr>written = [Call_WriteHeader 200, Call_Write ''ok''],
      write_outcome = write_outcome blank_sink\<rparr>"
  have route: "find_route exact_paths (registered_routes ?regs) get_items =
      Some ((''/items'', items_controller, [''GET'']), Map.empty)"
    by (simp add: exact_paths_def get_items_def)
  have passed: "pass_all (registered_middleware ?regs) blank_sink (get_items\<lparr>Vars := Map.empty\<rparr>) =
      Some blank_sink"
    by (simp add: audit_gate_def)
  have action: "Action items_controller blank_sink (get_items\<lparr>Vars := Map.empty\<rparr>) = (None, ?w2)"
    by (simp add: items_controller_def WriteHeader_def wroteHeader_def Write_def blank_sink_def)
  have action': "snd (Action items_controller blank_sink get_items) = ?w2"
    by (simp add: items_controller_def WriteHeader_def wroteHeader_def Write_def blank_sink_def)
  from dispatcher_adds_nothing_on_success[OF route passed action, where config = local_config]
       action'
  show ?thesis
    by (simp add: audit_gate_def items_controller_def)
qed

text \<open>
  C4. For one request served by a registered route with controller \<open>c\<close>: the calls the
  dispatcher makes are an initial stretch of the middleware chain, in the order in which
  \<^verbatim>\<open>AddMiddleware\<close> appended the gates, followed at most by the controller; some
  controller is called exactly when every gate returned nil; and then \<open>c\<close>'s
  \<^verbatim>\<open>Action\<close> is executed after the whole chain, on the sink as the last gate left
  it, and what it returns decides the response: its sink untouched when it returns nil,
  its sink with the translation when it returns an Error Model that can be translated.
  A request that no route serves calls nothing.
\<close>

theorem middleware_run_in_registration_order:
  "(find_route pm (registered_routes regs) r = Some ((p, c, M), vs) \<longrightarrow>
      prefix (invoked (exchange_of (ServeHTTP pm (router (configure config regs)) (fresh w) r)))
        (map (\<lambda>m. Handle_of (mw_name m)) (registered_middleware regs) @ [Action_of (ctl_name c)])
    \<and> ((\<exists>n. Action_of n \<in> set (invoked (exchange_of
              (ServeHTTP pm (router (configure config regs)) (fresh w) r))))
         = (pass_all (registered_middleware regs) w (r\<lparr>Vars := vs\<rparr>) \<noteq> None))
    \<and> (\<forall>w_mid herr w_end.
          pass_all (registered_middleware regs) w (r\<lparr>Vars := vs\<rparr>) = Some w_mid
          \<and> Action c w_mid (r\<lparr>Vars := vs\<rparr>) = (herr, w_end) \<longrightarrow>
          invoked (exchange_of (ServeHTTP pm (router (configure config regs)) (fresh w) r)) =
            map (\<lambda>m. Handle_of (mw_name m)) (registered_middleware regs) @ [Action_of (ctl_name c)]
          \<and> (herr = None \<longrightarrow>
               ServeHTTP pm (router (configure config regs)) (fresh w) r =
                 Inr \<lparr>invoked = map (\<lambda>m. Handle_of (mw_name m)) (registered_middleware regs)
                                  @ [Action_of (ctl_name c)],
                      sink = w_end\<rparr>)
          \<and> (\<forall>e cause. herr = Some e \<and> Err e = Some cause
                \<and> 100 \<le> ResponseCode e \<and> ResponseCode e \<le> 999 \<longrightarrow>
               ServeHTTP pm (router (configure config regs)) (fresh w) r =
                 Inr \<lparr>invoked = map (\<lambda>m. Handle_of (mw_name m)) (registered_middleware regs)
                                  @ [Action_of (ctl_name c)],
                      sink = w_end\<lparr>written := written w_end @
                               [Call_http_Error (Error cause) (ResponseCode e)]\<rparr>\<rparr>)))
 \<and> (find_route pm (registered_routes regs) r = None \<longrightarrow>
      invoked (exchange_of (ServeHTTP pm (router (configure config regs)) (fresh w) r)) = [])"
proof (intro conjI impI allI)
  assume m: "find_route pm (registered_routes regs) r = Some ((p, c, M), vs)"
  let ?res = "exchange_of (ServeHTTP pm (router (configure config regs)) (fresh w) r)"
  let ?ms = "registered_middleware regs"
  from chain_invoked_prefix[of ?ms c "fresh w" "r\<lparr>Vars := vs\<rparr>"]
  show "prefix (invoked ?res) (map (\<lambda>m. Handle_of (mw_name m)) ?ms @ [Action_of (ctl_name c)])"
    by (simp add: ServeHTTP_matched[OF m] fresh_def)
  show "(\<exists>n. Action_of n \<in> set (invoked ?res)) = (pass_all ?ms w (r\<lparr>Vars := vs\<rparr>) \<noteq> None)"
  proof (cases "pass_all ?ms w (r\<lparr>Vars := vs\<rparr>)")
    case None
    have "Action_of n \<notin> set (invoked ?res)" for n
    proof
      assume "Action_of n \<in> set (invoked ?res)"
      then have "Action_of n \<in> set (invoked (exchange_of
         (foldr (\<lambda>mwf next. mwf next) (map AddMiddleware_func ?ms) (AddRoute_func c)
            (fresh w) (r\<lparr>Vars := vs\<rparr>))))"
        by (simp add: ServeHTTP_matched[OF m])
      moreover have "pass_all ?ms (sink (fresh w)) (r\<lparr>Vars := vs\<rparr>) = None"
        using None by (simp add: fresh_def)
      ultimately have "Action_of n \<in> set (invoked (fresh w))" by (rule chain_blocked[rotated])
      then show False by (simp add: fresh_def)
    qed
    with None show ?thesis by simp
  next
    case (Some wa)
    have "invoked ?res = map (\<lambda>m. Handle_of (mw_name m)) ?ms @ [Action_of (ctl_name c)]"
      by (simp add: ServeHTTP_all_pass[OF m Some] AddRoute_func_invoked)
    then have "Action_of (ctl_name c) \<in> set (invoked ?res)" by simp
    then have "\<exists>n. Action_of n \<in> set (invoked ?res)" by blast
    with Some show ?thesis by simp
  qed
next
  fix w_mid herr w_end
  assume m: "find_route pm (registered_routes regs) r = Some ((p, c, M), vs)"
     and a: "pass_all (registered_middleware regs) w (r\<lparr>Vars := vs\<rparr>) = Some w_mid
          \<and> Action c w_mid (r\<lparr>Vars := vs\<rparr>) = (herr, w_end)"
  from a have P: "pass_all (registered_middleware regs) w (r\<lparr>Vars := vs\<rparr>) = Some w_mid"
    by simp
  show "invoked (exchange_of (ServeHTTP pm (router (configure config regs)) (fresh w) r)) =
      map (\<lambda>m. Handle_of (mw_name m)) (registered_middleware regs) @ [Action_of (ctl_name c)]"
    by (simp add: ServeHTTP_all_pass[OF m P] AddRoute_func_invoked)
next
  fix w_mid herr w_end
  assume m: "find_route pm (registered_routes regs) r = Some ((p, c, M), vs)"
     and a: "pass_all (registered_middleware regs) w (r\<lparr>Vars := vs\<rparr>) = Some w_mid
          \<and> Action c w_mid (r\<lparr>Vars := vs\<rparr>) = (herr, w_end)"
     and n: "herr = None"
  from a have P: "pass_all (registered_middleware regs) w (r\<lparr>Vars := vs\<rparr>) = Some w_mid"
    by simp
  from a n show "ServeHTTP pm (router (configure config regs)) (fresh w) r =
      Inr \<lparr>invoked = map (\<lambda>m. Handle_of (mw_name m)) (registered_middleware regs)
                       @ [Action_of (ctl_name c)],
           sink = w_end\<rparr>"
    by (simp add: ServeHTTP_all_pass[OF m P] AddRoute_func_nil)
next
  fix w_mid herr w_end e cause
  assume m: "find_route pm (registered_routes regs) r = Some ((p, c, M), vs)"
     and a: "pass_all (registered_middleware regs) w (r\<lparr>Vars := vs\<rparr>) = Some w_mid
          \<and> Action c w_mid (r\<lparr>Vars := vs\<rparr>) = (herr, w_end)"
     and b: "herr = Some e \<and> Err e = Some cause \<and> 100 \<le> ResponseCode e \<and> ResponseCode e \<le> 999"
  from a have P: "pass_all (registered_middleware regs) w (r\<lparr>Vars := vs\<rparr>) = Some w_mid"
    by simp
  from a b show "ServeHTTP pm (router (configure config regs)) (fresh w) r =
      Inr \<lparr>invoked = map (\<lambda>m. Handle_of (mw_name m)) (registered_middleware regs)
                       @ [Action_of (ctl_name c)],
           sink = w_end\<lparr>written := written w_end @
                    [Call_http_Error (Error cause) (ResponseCode e)]\<rparr>\<rparr>"
    by (simp add: ServeHTTP_all_pass[OF m P] AddRoute_func_error)
next
  assume "find_route pm (registered_routes regs) r = None"
  then show "invoked (exchange_of (ServeHTTP pm (router (configure config regs)) (fresh w) r)) = []"
    by (rule ServeHTTP_unmatched)
qed

text \<open>
  Gates cors and audit, registered around the route: a GET is handed to cors, then
  audit, then the controller, whose 200 ``ok'' follows the header cors set; a POST,
  which the route does not serve, calls nothing.
\<close>

theorem middleware_run_in_registration_order_witness:
  "prefix (invoked (exchange_of (ServeHTTP exact_paths
      (router (configure local_config
         [Reg_Middleware cors_gate, Reg_Route ''/items'' items_controller [''GET''],
          Reg_Middleware audit_gate]))
      (fresh blank_sink) get_items)))
     [Handle_of ''cors'', Handle_of ''audit'', Action_of ''items'']
 \<and> ServeHTTP exact_paths
      (router (configure local_config
         [Reg_Middleware cors_gate, Reg_Route ''/items'' items_controller [''GET''],
          Reg_Middleware audit_gate]))
      (fresh blank_sink) get_items =
    Inr \<lparr>invoked = [Handle_of ''cors'', Handle_of ''audit'', Action_of ''items''],
         sink = \<lparr>written = [Call_Header_Set ''Access-Control-Allow-Origin'' ''*'',
                             Call_WriteHeader 200, Call_Write ''ok''],
                  write_outcome = write_outcome blank_sink\<rparr>\<rparr>
 \<and> invoked (exchange_of (ServeHTTP exact_paths
      (router (configure local_config
         [Reg_Middleware cors_gate, Reg_Route ''/items'' items_controller [''GET''],
          Reg_Middleware audit_gate]))
      (fresh blank_sink) (post_body ''x''))) = []"
proof -
  let ?regs = "[Reg_Middleware cors_gate, Reg_Route ''/items'' items_controller [''GET''],
          Reg_Middleware audit_gate]"
  let ?w1 = "Header_Set blank_sink ''Access-Control-Allow-Origin'' ''*''"
  let ?w2 = "\<lparr>written = [Call_Header_Set ''Access-Control-Allow-Origin'' ''*'',
                             Call_WriteHeader 200, Call_Write ''ok''],
                  write_outcome = write_outcome blank_sink\<rparr>"
  note T = middleware_run_in_registration_order[where pm = exact_paths and regs = ?regs
      and config = local_config and w = blank_sink]
  have route: "find_route exact_paths (registered_routes ?regs) get_items =
      Some ((''/items'', items_controller, [''GET'']), Map.empty)"
    by (simp add: exact_paths_def get_items_def)
  have passed: "pass_all (registered_middleware ?regs) blank_sink (get_items\<lparr>Vars := Map.empty\<rparr>) =
      Some ?w1"
    by (simp add: cors_gate_def audit_gate_def)
  have action: "Action items_controller ?w1 (get_items\<lparr>Vars := Map.empty\<rparr>) = (None, ?w2)"
    by (simp add: items_controller_def WriteHeader_def wroteHeader_def Write_def Header_Set_def
          blank_sink_def)
  have no_route: "find_route exact_paths (registered_routes ?regs) (post_body ''x'') = None"
    by (simp add: exact_paths_def post_body_def)
  from T[where r = get_items and p = "''/items''" and c = items_controller and M = "[''GET'']"
         and vs = Map.empty, THEN conjunct1, THEN mp, OF route]
  have a: "prefix (invoked (exchange_of
        (ServeHTTP exact_paths (router (configure local_config ?regs)) (fresh blank_sink) get_items)))
      (map (\<lambda>m. Handle_of (mw_name m)) (registered_middleware ?regs)
         @ [Action_of (ctl_name items_controller)])"
    and b: "\<forall>w_mid herr w_end.
        pass_all (registered_middleware ?regs) blank_sink (get_items\<lparr>Vars := Map.empty\<rparr>) = Some w_mid
        \<and> Action items_controller w_mid (get_items\<lparr>Vars := Map.empty\<rparr>) = (herr, w_end) \<longrightarrow>
        (herr = None \<longrightarrow>
          ServeHTTP exact_paths (router (configure local_config ?regs)) (fresh blank_sink) get_items =
            Inr \<lparr>invoked = map (\<lambda>m. Handle_of (mw_name m)) (registered_middleware ?regs)
                             @ [Action_of (ctl_name items_controller)],
                 sink = w_end\<rparr>)"
    by blast+
  from T[where r = "post_body ''x''" and p = "''/items''" and c = items_controller
         and M = "[''GET'']" and vs = Map.empty, THEN conjunct2, THEN mp, OF no_route]
  have c: "invoked (exchange_of (ServeHTTP exact_paths (router (configure local_config ?regs))
      (fresh blank_sink) (post_body ''x''))) = []" .
  from b passed action
  have b': "ServeHTTP exact_paths (router (configure local_config ?regs)) (fresh blank_sink) get_items =
            Inr \<lparr>invoked = map (\<lambda>m. Handle_of (mw_name m)) (registered_middleware ?regs)
                             @ [Action_of (ctl_name items_controller)],
                 sink = ?w2\<rparr>"
    by blast
  have names: "map (\<lambda>m. Handle_of (mw_name m)) (registered_middleware ?regs) =
      [Handle_of ''cors'', Handle_of ''audit'']"
    by (simp add: cors_gate_def audit_gate_def)
  have ctl: "ctl_name items_controller = ''items''"
    by (simp add: items_controller_def)
  from a b' c show ?thesis
    by (simp only: names ctl append.simps simp_thms)
qed

text \<open>
  C5. Let a request's method lie outside the method set of every route bound to the
  controller \<open>cn\<close> (for a controller bound to one route \<open>R\<close> with method set \<open>M\<close>:
  the method is not in \<open>M\<close>). Then serving the request never calls that controller's
  \<^verbatim>\<open>Action\<close>, whatever middleware and other routes are registered. The method set
  need not even be non-empty.
\<close>

theorem method_outside_set_never_invokes_controller:
  assumes "\<forall>(p, c, M) \<in> set (registered_routes regs). ctl_name c = cn \<longrightarrow> Method r \<notin> set M"
  shows "Action_of cn \<notin> set (invoked (exchange_of
           (ServeHTTP pm (router (configure config regs)) (fresh w) r)))"
proof (cases "find_route pm (registered_routes regs) r")
  case None
  then show ?thesis by (simp add: ServeHTTP_unmatched)
next
  case (Some hit)
  obtain p c M vs where hit: "hit = ((p, c, M), vs)" by (cases hit) auto
  have m: "find_route pm (registered_routes regs) r = Some ((p, c, M), vs)"
    using Some hit by simp
  from find_route_Some[OF m] assms have "ctl_name c \<noteq> cn" by auto
  moreover from chain_invoked_prefix[of "registered_middleware regs" c "fresh w" "r\<lparr>Vars := vs\<rparr>"]
  have "set (invoked (exchange_of (ServeHTTP pm (router (configure config regs)) (fresh w) r)))
          \<subseteq> set (map (\<lambda>m. Handle_of (mw_name m)) (registered_middleware regs)
                   @ [Action_of (ctl_name c)])"
    by (simp only: ServeHTTP_matched[OF m] fresh_def exchange.simps append_Nil set_mono_prefix)
  ultimately show ?thesis by auto
qed

text \<open>
  Two routes on one path: the items controller for POST, the broken controller for GET.
  A GET reaches the broken controller and never the items controller.
\<close>

theorem method_outside_set_never_invokes_controller_witness:
  "Action_of ''items'' \<notin> set (invoked (exchange_of (ServeHTTP exact_paths
      (router (configure local_config
         [Reg_Route ''/items'' items_controller [''POST''],
          Reg_Route ''/items'' broken_controller [''GET'']]))
      (fresh blank_sink) get_items)))
 \<and> invoked (exchange_of (ServeHTTP exact_paths
      (router (configure local_config
         [Reg_Route ''/items'' items_controller [''POST''],
          Reg_Route ''/items'' broken_controller [''GET'']]))
      (fresh blank_sink) get_items)) = [Action_of ''broken'']"
proof -
  let ?regs = "[Reg_Route ''/items'' items_controller [''POST''],
          Reg_Route ''/items'' broken_controller [''GET'']]"
  have outside: "\<forall>(p, c, M) \<in> set (registered_routes ?regs).
      ctl_name c = ''items'' \<longrightarrow> Method get_items \<notin> set M"
    by (simp add: get_items_def broken_controller_def)
  have served: "invoked (exchange_of (ServeHTTP exact_paths (router (configure local_config ?regs))
      (fresh blank_sink) get_items)) = [Action_of ''broken'']"
    by (simp add: ServeHTTP_def configure_def NewHTTPServer_def NewRouter_def AddRoute_def
          HandleFunc_def Methods_def route_match_def AddRoute_func_def default_response_def
          exact_paths_def get_items_def items_controller_def broken_controller_def
          NewHTTPError_def http_Error_def wroteHeader_def blank_sink_def fresh_def)
  from method_outside_set_never_invokes_controller[OF outside, where pm = exact_paths
         and config = local_config and w = blank_sink] served
  show ?thesis by simp
qed

section \<open>Claims about the helpers\<close>










text \<open>
  C9, as amended. When the JSON body decodes and the validator runs and finds the
  record invalid, \<^verbatim>\<open>ScanJSONBody\<close> returns an Error Model with status 400 whose
  cause message is the fixed text ``Schema validation error'', with a capital S; the
  text does not depend on the record, so no field is itemized.
\<close>

theorem invalid_record_gets_generic_message:
  assumes "Body r = Some body"
      and "json_Decode ext body schema = (None, s')"
      and "validation_Valid ext s' = (False, None)"
  shows "ScanJSONBody ext r schema =
           Inr (Some \<lparr>ResponseCode = 400, Err = Some (errors_New ''Schema validation error'')\<rparr>, s')
       \<and> status_and_message \<lparr>ResponseCode = 400, Err = Some (errors_New ''Schema validation error'')\<rparr>
           = (400, Some ''Schema validation error'')"
  by (simp add: ScanJSONBody_invalid[OF assms] status_and_message_def)

text \<open>The body that gives the quantity -2 decodes, and Min(1) finds the record invalid.\<close>

theorem invalid_record_gets_generic_message_witness:
  "ScanJSONBody toy_libs (post_body (qty_body (- 2))) blank_item =
     Inr (Some \<lparr>ResponseCode = 400, Err = Some (errors_New ''Schema validation error'')\<rparr>,
          \<lparr>qty = - 2\<rparr>)
 \<and> qty_body (- 2) = ''{'' @ quoted ''qty'' @ '':-2}''"
proof -
  have body: "Body (post_body (qty_body (- 2))) = Some (qty_body (- 2))"
    by (simp add: post_body_def)
  have low: "json_Decode toy_libs (qty_body (- 2)) blank_item = (None, \<lparr>qty = - 2\<rparr>)"
    by (simp add: toy_libs_def blank_item_def qty_body_def quoted_def itoa_def)
  have invalid: "validation_Valid toy_libs \<lparr>qty = - 2\<rparr> = (False, None)"
    by (simp add: toy_libs_def)
  have printed: "qty_body (- 2) = ''{'' @ quoted ''qty'' @ '':-2}''"
    by (simp add: qty_body_def itoa_def)
  from invalid_record_gets_generic_message[OF body low invalid] printed show ?thesis
    by simp
qed

text \<open>
  The claim as written names the text ``schema validation error''. For the body that
  gives the quantity -2, which decodes and is found invalid, the message returned is not
  that text.
\<close>

theorem lowercase_message_counterexample:
  "json_Decode toy_libs (qty_body (- 2)) blank_item = (None, \<lparr>qty = - 2\<rparr>)
 \<and> validation_Valid toy_libs \<lparr>qty = - 2\<rparr> = (False, None)
 \<and> ScanJSONBody toy_libs (post_body (qty_body (- 2))) blank_item \<noteq>
     Inr (Some \<lparr>ResponseCode = 400, Err = Some (errors_New ''schema validation error'')\<rparr>,
          \<lparr>qty = - 2\<rparr>)
 \<and> ScanJSONBody toy_libs (post_body (qty_body (- 2))) blank_item =
     Inr (Some \<lparr>ResponseCode = 400, Err = Some (errors_New ''Schema validation error'')\<rparr>,
          \<lparr>qty = - 2\<rparr>)"
  by (simp add: toy_libs_def blank_item_def post_body_def qty_body_def quoted_def itoa_def
        ScanJSONBody_def NewHTTPError_def StatusBadRequest_def)

section \<open>Claims about the Error Model\<close>




end
